theory Spec2Isabelle
  imports Main
begin

section \<open>The ECR scan handler (handler.go)\<close>

text \<open>
  A shallow embedding of \<^verbatim>\<open>handler.go\<close>. The registry client (\<^verbatim>\<open>ecr.ECR\<close>), the chat
  client (\<^verbatim>\<open>internal.SlackService\<close>), the scoring method and the severity table of package
  \<^verbatim>\<open>internal\<close> and the clock are collaborators whose code is not in the file; they are
  parameters of the model. A Go pointer is an \<open>option\<close> (\<open>None\<close> is \<^verbatim>\<open>nil\<close>), a
  dereference of \<^verbatim>\<open>nil\<close> is the result \<open>Inl NilPointerDereference\<close>, and a Go pair
  \<^verbatim>\<open>(result, err)\<close> is a pair of options, so that all four combinations the type admits
  are inputs of the model.
\<close>

subsection \<open>Data\<close>

text \<open>A Go \<^verbatim>\<open>error\<close> value; \<open>Error\<close> is its method \<^verbatim>\<open>Error()\<close>.\<close>

datatype go_error = GoError (Error: string)

datatype panic = NilPointerDereference

text \<open>
  \<^verbatim>\<open>map[string]*int64\<close>, the counts by severity level. Only its length is read by the
  handler; the entries are handed to the scoring method unchanged.
\<close>

type_synonym SeverityCounts = "(string \<times> int) list"

record ecr_Repository =
  repo_RepositoryName :: "string option"

record DescribeRepositoriesInput =
  MaxResults :: "int option"
  list_RegistryId :: "string option"

text \<open>\<^verbatim>\<open>Repositories\<close> is a slice of pointers: an element may be \<^verbatim>\<open>nil\<close>.\<close>

record DescribeRepositoriesOutput =
  Repositories :: "ecr_Repository option list"

record ImageIdentifier =
  ImageDigest :: "string option"
  ImageTag :: "string option"

record DescribeImageScanFindingsInput =
  ImageId :: "ImageIdentifier option"
  RepositoryName :: "string option"
  RegistryId :: "string option"

record ecr_ImageScanFindings =
  FindingSeverityCounts :: SeverityCounts

record DescribeImageScanFindingsOutput =
  finding_ImageId :: "ImageIdentifier option"
  ImageScanFindings :: "ecr_ImageScanFindings option"
  finding_RepositoryName :: "string option"

text \<open>\<^verbatim>\<open>internal.ScanErrors\<close>, \<^verbatim>\<open>internal.Severity\<close> and \<^verbatim>\<open>internal.Repository\<close>, with the
  fields the handler writes.\<close>

record ScanErrors =
  failed_RepositoryName :: string

record Severity =
  Count :: SeverityCounts
  Link :: string

record Repository =
  Name :: string
  Severity :: Severity

record APIGatewayProxyResponse =
  StatusCode :: int
  Body :: string

subsection \<open>Collaborators\<close>

text \<open>The registry client answers a request by its content.\<close>

record ECR =
  DescribeRepositories ::
    "DescribeRepositoriesInput \<Rightarrow> DescribeRepositoriesOutput option \<times> go_error option"
  DescribeImageScanFindings ::
    "DescribeImageScanFindingsInput \<Rightarrow> DescribeImageScanFindingsOutput option \<times> go_error option"

text \<open>
  What the chat client was asked to send: a plain text or the parts of a block. The log
  of an invocation lists every attempt with its outcome, in order; the client's answer may
  depend on the log so far as well as on the message.
\<close>

datatype 'b message = Standalone string | Blocks "'b list"

type_synonym 'b dispatch_log = "('b message \<times> go_error option) list"

record 'b SlackService =
  PostStandaloneMessage :: "'b dispatch_log \<Rightarrow> string \<Rightarrow> go_error option"
  BuildMessageBlock :: "Repository \<Rightarrow> 'b list"
  PostMessage :: "'b dispatch_log \<Rightarrow> 'b list \<Rightarrow> string \<times> string \<times> go_error option"

record 'b app =
  env :: string
  region :: string
  minimumSeverity :: string
  ecrRegistryID :: string
  ecrService :: ECR
  slackService :: "'b SlackService"

text \<open>
  The two members of package \<^verbatim>\<open>internal\<close> that the filter uses: the table
  \<^verbatim>\<open>SeverityTable\<close> (a Go map from level name to score) and the method
  \<^verbatim>\<open>Severity.CalculateScore\<close>.
\<close>

record internal =
  SeverityTable :: "string \<rightharpoonup> int"
  CalculateScore :: "Severity \<Rightarrow> int"

text \<open>What an invocation leaves behind: the dispatch log and the lines printed.\<close>

record 'b world =
  sent :: "'b dispatch_log"
  stdout :: "string list"

subsection \<open>ListRepositories\<close>

definition ListRepositories ::
  "'b app \<Rightarrow> int \<Rightarrow> DescribeRepositoriesOutput option \<times> go_error option" where
  "ListRepositories a maxRepos =
     (let mr = maxRepos;
          input = \<lparr>MaxResults = Some mr, list_RegistryId = None\<rparr>;
          input = (if length (ecrRegistryID a) \<noteq> 0
                   then input\<lparr>list_RegistryId := Some (ecrRegistryID a)\<rparr> else input)
      in DescribeRepositories (ecrService a) input)"

subsection \<open>GetFindings\<close>

text \<open>The request built for one repository (lines 43 to 52).\<close>

definition describeInput :: "'b app \<Rightarrow> ecr_Repository \<Rightarrow> DescribeImageScanFindingsInput" where
  "describeInput a repo =
     (let inp = \<lparr>ImageId = Some \<lparr>ImageDigest = None, ImageTag = Some ''latest''\<rparr>,
                 RepositoryName = repo_RepositoryName repo,
                 RegistryId = None\<rparr>
      in if length (ecrRegistryID a) \<noteq> 0
         then inp\<lparr>RegistryId := Some (ecrRegistryID a)\<rparr> else inp)"

text \<open>
  The loop of \<^verbatim>\<open>GetFindings\<close>, with its two accumulators. Reading
  \<^verbatim>\<open>repo.RepositoryName\<close> at line 47 dereferences the element. After the error branch the
  body goes on to \<^verbatim>\<open>findings = append(findings, *finding)\<close>: there is no
  \<^verbatim>\<open>continue\<close> and no \<^verbatim>\<open>else\<close>.
\<close>

fun GetFindings_loop ::
  "'b app \<Rightarrow> ecr_Repository option list \<Rightarrow> DescribeImageScanFindingsOutput list
     \<Rightarrow> ScanErrors list \<Rightarrow> panic + (DescribeImageScanFindingsOutput list \<times> ScanErrors list)" where
  "GetFindings_loop a [] findings failed = Inr (findings, failed)"
| "GetFindings_loop a (None # rest) findings failed = Inl NilPointerDereference"
| "GetFindings_loop a (Some repo # rest) findings failed =
     (case DescribeImageScanFindings (ecrService a) (describeInput a repo) of
        (finding, err) \<Rightarrow>
          (case (if err \<noteq> None
                 then (case repo_RepositoryName repo of
                         None \<Rightarrow> Inl NilPointerDereference
                       | Some n \<Rightarrow> Inr (failed @ [\<lparr>failed_RepositoryName = n\<rparr>]))
                 else Inr failed) of
             Inl p \<Rightarrow> Inl p
           | Inr failed' \<Rightarrow>
               (case finding of
                  None \<Rightarrow> Inl NilPointerDereference
                | Some f \<Rightarrow> GetFindings_loop a rest (findings @ [f]) failed')))"

definition GetFindings ::
  "'b app \<Rightarrow> DescribeRepositoriesOutput option
     \<Rightarrow> panic + (DescribeImageScanFindingsOutput list \<times> ScanErrors list)" where
  "GetFindings a r =
     (case r of
        None \<Rightarrow> Inl NilPointerDereference
      | Some out \<Rightarrow> GetFindings_loop a (Repositories out) [] [])"

subsection \<open>Handle\<close>

definition errorResponse :: "go_error \<Rightarrow> APIGatewayProxyResponse" where
  "errorResponse err = \<lparr>StatusCode = 500, Body = Error err\<rparr>"

definition newline :: string where
  "newline = [CHR 0x0A]"

text \<open>The condition of line 74: the finding carries severity counts.\<close>

definition hasSeverityCounts :: "DescribeImageScanFindingsOutput \<Rightarrow> bool" where
  "hasSeverityCounts finding =
     (case ImageScanFindings finding of
        None \<Rightarrow> False
      | Some isf \<Rightarrow> length (FindingSeverityCounts isf) \<noteq> 0)"

text \<open>The format string of line 79, with its three \<^verbatim>\<open>%s\<close> replaced.\<close>

definition scanResultsLink :: "string \<Rightarrow> string \<Rightarrow> string \<Rightarrow> string" where
  "scanResultsLink repoName imageDigest reg =
     ''https://console.aws.amazon.com/ecr/repositories/'' @ repoName @ ''/image/'' @ imageDigest
       @ ''/scan-results?region='' @ reg"

text \<open>
  The record built at lines 75 to 81 for a finding that carries severity counts. The name,
  the image identifier and the digest are dereferenced.
\<close>

definition newRepository :: "'b app \<Rightarrow> DescribeImageScanFindingsOutput \<Rightarrow> panic + Repository" where
  "newRepository a finding =
     (case finding_RepositoryName finding of
        None \<Rightarrow> Inl NilPointerDereference
      | Some name \<Rightarrow>
          (case ImageScanFindings finding of
             None \<Rightarrow> Inl NilPointerDereference
           | Some isf \<Rightarrow>
               (case finding_ImageId finding of
                  None \<Rightarrow> Inl NilPointerDereference
                | Some iid \<Rightarrow>
                    (case ImageDigest iid of
                       None \<Rightarrow> Inl NilPointerDereference
                     | Some digest \<Rightarrow>
                         Inr \<lparr>Name = name,
                              Severity = \<lparr>Count = FindingSeverityCounts isf,
                                          Link = scanResultsLink name digest (region a)\<rparr>\<rparr>))))"

text \<open>\<^verbatim>\<open>internal.SeverityTable[a.minimumSeverity]\<close>: a Go map gives 0 for a missing key.\<close>

definition minimumScore :: "'b app \<Rightarrow> internal \<Rightarrow> int" where
  "minimumScore a i =
     (case SeverityTable i (minimumSeverity a) of None \<Rightarrow> 0 | Some s \<Rightarrow> s)"

text \<open>The loop of lines 73 to 86.\<close>

fun Handle_filter ::
  "'b app \<Rightarrow> internal \<Rightarrow> DescribeImageScanFindingsOutput list \<Rightarrow> Repository list
     \<Rightarrow> panic + Repository list" where
  "Handle_filter a i [] filtered = Inr filtered"
| "Handle_filter a i (finding # rest) filtered =
     (if hasSeverityCounts finding
      then (case newRepository a finding of
              Inl p \<Rightarrow> Inl p
            | Inr r \<Rightarrow>
                (if CalculateScore i (Severity r) \<ge> minimumScore a i
                 then Handle_filter a i rest (filtered @ [r])
                 else Handle_filter a i rest filtered))
      else Handle_filter a i rest filtered)"

text \<open>One call of \<^verbatim>\<open>PostStandaloneMessage\<close>, recorded in the log.\<close>

definition postStandalone :: "'b app \<Rightarrow> 'b world \<Rightarrow> string \<Rightarrow> go_error option \<times> 'b world" where
  "postStandalone a w msg =
     (let err = PostStandaloneMessage (slackService a) (sent w) msg
      in (err, w\<lparr>sent := sent w @ [(Standalone msg, err)]\<rparr>))"

text \<open>The loop of lines 94 to 102: it returns at the first transport error.\<close>

fun Handle_dispatch :: "'b app \<Rightarrow> Repository list \<Rightarrow> 'b world \<Rightarrow> go_error option \<times> 'b world" where
  "Handle_dispatch a [] w = (None, w)"
| "Handle_dispatch a (r # rest) w =
     (let blockParts = BuildMessageBlock (slackService a) r
      in case PostMessage (slackService a) (sent w) blockParts of
           (channelID, timestamp, err) \<Rightarrow>
             (let w' = w\<lparr>sent := sent w @ [(Blocks blockParts, err)]\<rparr>
              in case err of
                   Some e \<Rightarrow> (Some e, w')
                 | None \<Rightarrow>
                     Handle_dispatch a rest
                       (w'\<lparr>stdout := stdout w' @
                          [''Message successfully sent to channel '' @ channelID @ '' at ''
                             @ timestamp @ newline]\<rparr>)))"

text \<open>The string built at lines 111 to 114.\<close>

definition failedRepos :: "ScanErrors list \<Rightarrow> string" where
  "failedRepos scanErrors =
     foldl (\<lambda>s failed. s @ failed_RepositoryName failed @ newline) [] scanErrors"

definition errorMsg :: string where
  "errorMsg = '':x: *Failed get scan results from the following repos:* :x:''"

definition headerMsg :: "string \<Rightarrow> string" where
  "headerMsg today = ''*Scan results on '' @ today @ ''*''"

text \<open>
  \<^verbatim>\<open>Handle\<close>. The argument \<open>today\<close> is \<^verbatim>\<open>time.Now().Format("2006 Jan 02")\<close>; the request
  is not read by the function and is left out. The result is the response, or the panic
  that ended the invocation, with the dispatch log and the output.
\<close>

definition Handle ::
  "'b app \<Rightarrow> internal \<Rightarrow> string \<Rightarrow> (panic + APIGatewayProxyResponse) \<times> 'b world" where
  "Handle a i today =
     (let w0 = \<lparr>sent = [], stdout = []\<rparr>
      in case ListRepositories a 1000 of
           (list, Some err) \<Rightarrow> (Inr (errorResponse err), w0)
         | (list, None) \<Rightarrow>
             (case GetFindings a list of
                Inl p \<Rightarrow> (Inl p, w0)
              | Inr (findings, scanErrors) \<Rightarrow>
                  (case Handle_filter a i findings [] of
                     Inl p \<Rightarrow> (Inl p, w0)
                   | Inr filtered \<Rightarrow>
                       (case postStandalone a w0 (headerMsg today) of
                          (Some err, w1) \<Rightarrow> (Inr (errorResponse err), w1)
                        | (None, w1) \<Rightarrow>
                            (case Handle_dispatch a filtered w1 of
                               (Some err, w2) \<Rightarrow> (Inr (errorResponse err), w2)
                             | (None, w2) \<Rightarrow>
                                 (if length scanErrors \<noteq> 0
                                  then (case postStandalone a w2 errorMsg of
                                          (Some err, w3) \<Rightarrow> (Inr (errorResponse err), w3)
                                        | (None, w3) \<Rightarrow>
                                            (case postStandalone a w3 (failedRepos scanErrors) of
                                               (Some err, w4) \<Rightarrow> (Inr (errorResponse err), w4)
                                             | (None, w4) \<Rightarrow>
                                                 (Inr \<lparr>StatusCode = 200, Body = []\<rparr>, w4)))
                                  else (Inr \<lparr>StatusCode = 200, Body = []\<rparr>, w2)))))))"

subsection \<open>The severity score\<close>


subsection \<open>The spec's wording of the digest body\<close>

text \<open>Names joined by newlines: a newline between two names and none after the last.\<close>

fun newline_joined :: "string list \<Rightarrow> string" where
  "newline_joined [] = []"
| "newline_joined [n] = n"
| "newline_joined (n # m # ns) = n @ newline @ newline_joined (m # ns)"

subsection \<open>Example inputs\<close>

text \<open>A registry that lists the given repositories and answers each lookup from a table.\<close>

definition example_registry ::
  "(string \<times> (DescribeImageScanFindingsOutput option \<times> go_error option)) list \<Rightarrow> ECR" where
  "example_registry answers =
     \<lparr>DescribeRepositories =
        (\<lambda>input. (Some \<lparr>Repositories = map (\<lambda>(n, r). Some \<lparr>repo_RepositoryName = Some n\<rparr>) answers\<rparr>,
                   None)),
      DescribeImageScanFindings =
        (\<lambda>input. case RepositoryName input of
                    None \<Rightarrow> (None, Some (GoError ''InvalidParameterException''))
                  | Some n \<Rightarrow>
                      (case map_of answers n of
                         None \<Rightarrow> (None, Some (GoError ''RepositoryNotFoundException''))
                       | Some r \<Rightarrow> r))\<rparr>"

text \<open>A registry whose listing fails.\<close>

definition example_registry_down :: ECR where
  "example_registry_down =
     \<lparr>DescribeRepositories = (\<lambda>input. (None, Some (GoError ''AccessDeniedException''))),
      DescribeImageScanFindings = (\<lambda>input. (None, Some (GoError ''AccessDeniedException'')))\<rparr>"

definition example_finding :: "string \<Rightarrow> SeverityCounts \<Rightarrow> DescribeImageScanFindingsOutput" where
  "example_finding n counts =
     \<lparr>finding_ImageId = Some \<lparr>ImageDigest = Some ''sha256:0a'', ImageTag = Some ''latest''\<rparr>,
      ImageScanFindings = Some \<lparr>FindingSeverityCounts = counts\<rparr>,
      finding_RepositoryName = Some n\<rparr>"

text \<open>The zero value \<^verbatim>\<open>ecr.DescribeImageScanFindingsOutput{}\<close>.\<close>

definition empty_output :: DescribeImageScanFindingsOutput where
  "empty_output =
     \<lparr>finding_ImageId = None, ImageScanFindings = None, finding_RepositoryName = None\<rparr>"

text \<open>A chat client that delivers everything, and one that refuses the second block.\<close>

definition example_slack :: "string SlackService" where
  "example_slack =
     \<lparr>PostStandaloneMessage = (\<lambda>log msg. None),
      BuildMessageBlock = (\<lambda>r. [Name r, Link (Severity r)]),
      PostMessage = (\<lambda>log parts. (''C024'', ''1700000000.1'', None))\<rparr>"

definition example_slack_failing :: "string SlackService" where
  "example_slack_failing =
     \<lparr>PostStandaloneMessage = (\<lambda>log msg. None),
      BuildMessageBlock = (\<lambda>r. [Name r, Link (Severity r)]),
      PostMessage = (\<lambda>log parts. if length log = 2
                                  then ([], [], Some (GoError ''channel_not_found''))
                                  else (''C024'', ''1700000000.1'', None))\<rparr>"

text \<open>A chat client that delivers the first message of an invocation and refuses every later text.\<close>

definition example_slack_throttled :: "string SlackService" where
  "example_slack_throttled =
     \<lparr>PostStandaloneMessage = (\<lambda>log msg. if log = [] then None else Some (GoError ''rate_limited'')),
      BuildMessageBlock = (\<lambda>r. [Name r, Link (Severity r)]),
      PostMessage = (\<lambda>log parts. (''C024'', ''1700000000.1'', None))\<rparr>"

definition example_app :: "ECR \<Rightarrow> string SlackService \<Rightarrow> string app" where
  "example_app e s =
     \<lparr>env = ''test'', region = ''eu-west-1'', minimumSeverity = ''HIGH'', ecrRegistryID = [],
      ecrService = e, slackService = s\<rparr>"

text \<open>A scoring that counts the findings, with the level \<^verbatim>\<open>HIGH\<close> at score 3.\<close>

definition example_internal :: internal where
  "example_internal =
     \<lparr>SeverityTable = [''HIGH'' \<mapsto> 3], CalculateScore = (\<lambda>s. sum_list (map snd (Count s)))\<rparr>"

text \<open>
  Five repositories: three at or above the threshold of \<open>example_internal\<close>, one below it,
  and one whose lookup fails with an empty output beside the error.
\<close>

definition example_answers ::
  "(string \<times> (DescribeImageScanFindingsOutput option \<times> go_error option)) list" where
  "example_answers =
     [(''api'', (Some (example_finding ''api'' [(''HIGH'', 3)]), None)),
      (''web'', (Some (example_finding ''web'' [(''CRITICAL'', 1), (''HIGH'', 4)]), None)),
      (''db'', (Some (example_finding ''db'' [(''LOW'', 2)]), None)),
      (''cache'', (Some (example_finding ''cache'' [(''HIGH'', 7)]), None)),
      (''old'', (Some empty_output, Some (GoError ''ScanNotFoundException'')))]"

definition example_repository :: "string \<Rightarrow> SeverityCounts \<Rightarrow> Repository" where
  "example_repository n counts =
     \<lparr>Name = n,
      Severity = \<lparr>Count = counts, Link = scanResultsLink n ''sha256:0a'' ''eu-west-1''\<rparr>\<rparr>"


section \<open>Properties\<close>

subsection \<open>Closed forms of the iterations\<close>

lemma GetFindings_loop_eq:
  "GetFindings_loop a repos findings failed =
     (if \<forall>r \<in> set repos.
           r \<noteq> None
           \<and> fst (DescribeImageScanFindings (ecrService a) (describeInput a (the r))) \<noteq> None
           \<and> (snd (DescribeImageScanFindings (ecrService a) (describeInput a (the r))) \<noteq> None
                \<longrightarrow> repo_RepositoryName (the r) \<noteq> None)
      then Inr (findings @ map (\<lambda>r. the (fst (DescribeImageScanFindings (ecrService a)
                                                (describeInput a (the r))))) repos,
                failed @ map (\<lambda>r. \<lparr>failed_RepositoryName = the (repo_RepositoryName (the r))\<rparr>)
                  (filter (\<lambda>r. snd (DescribeImageScanFindings (ecrService a)
                                       (describeInput a (the r))) \<noteq> None) repos))
      else Inl NilPointerDereference)"
proof (induction repos arbitrary: findings failed)
  case Nil
  show ?case by simp
next
  case (Cons r rest)
  show ?case
  proof (cases r)
    case None
    then show ?thesis by simp
  next
    case (Some repo)
    obtain finding err where
      l: "DescribeImageScanFindings (ecrService a) (describeInput a repo) = (finding, err)"
      by (cases "DescribeImageScanFindings (ecrService a) (describeInput a repo)")
    show ?thesis
    proof (cases finding)
      case None
      then show ?thesis using l Some by (simp split: option.splits)
    next
      case f: (Some f)
      show ?thesis
      proof (cases err)
        case None
        then show ?thesis using l f Some by (auto simp add: Cons.IH simp del: not_None_eq)
      next
        case e: (Some e)
        show ?thesis
        proof (cases "repo_RepositoryName repo")
          case None
          then show ?thesis using l f e Some by simp
        next
          case n: (Some n)
          then show ?thesis using l f e Some by (auto simp add: Cons.IH simp del: not_None_eq)
        qed
      qed
    qed
  qed
qed

lemma Handle_filter_eq:
  "Handle_filter a i findings filtered =
     (if \<forall>finding \<in> set findings. hasSeverityCounts finding \<longrightarrow> \<not> isl (newRepository a finding)
      then Inr (filtered @
             filter (\<lambda>r. minimumScore a i \<le> CalculateScore i (Severity r))
               (map (\<lambda>finding. projr (newRepository a finding)) (filter hasSeverityCounts findings)))
      else Inl NilPointerDereference)"
proof (induction findings arbitrary: filtered)
  case Nil
  show ?case by simp
next
  case (Cons finding rest)
  show ?case
  proof (cases "hasSeverityCounts finding")
    case False
    then show ?thesis by (simp add: Cons.IH)
  next
    case True
    show ?thesis
    proof (cases "newRepository a finding")
      case (Inl p)
      then show ?thesis using True by (cases p) simp
    next
      case (Inr r)
      then show ?thesis using True by (auto simp add: Cons.IH)
    qed
  qed
qed

lemma sent_postStandalone:
  "postStandalone a w msg =
     (PostStandaloneMessage (slackService a) (sent w) msg,
      w\<lparr>sent := sent w @ [(Standalone msg, PostStandaloneMessage (slackService a) (sent w) msg)]\<rparr>)"
  by (simp add: postStandalone_def Let_def)

lemma Handle_dispatch_fails_at:
  "n < length rs \<Longrightarrow>
   \<forall>k < n. snd (snd (PostMessage (slackService a)
              (sent w @ map (\<lambda>r. (Blocks (BuildMessageBlock (slackService a) r), None)) (take k rs))
              (BuildMessageBlock (slackService a) (rs ! k)))) = None \<Longrightarrow>
   snd (snd (PostMessage (slackService a)
              (sent w @ map (\<lambda>r. (Blocks (BuildMessageBlock (slackService a) r), None)) (take n rs))
              (BuildMessageBlock (slackService a) (rs ! n)))) = Some e \<Longrightarrow>
   \<exists>w'. Handle_dispatch a rs w = (Some e, w') \<and>
        sent w' = sent w @ map (\<lambda>r. (Blocks (BuildMessageBlock (slackService a) r), None)) (take n rs)
                    @ [(Blocks (BuildMessageBlock (slackService a) (rs ! n)), Some e)]"
proof (induction rs arbitrary: n w)
  case Nil
  then show ?case by simp
next
  case (Cons r rest)
  obtain c t err where p: "PostMessage (slackService a) (sent w) (BuildMessageBlock (slackService a) r) = (c, t, err)"
    by (cases "PostMessage (slackService a) (sent w) (BuildMessageBlock (slackService a) r)")
  show ?case
  proof (cases n)
    case 0
    with Cons.prems p have "err = Some e" by simp
    with p 0 show ?thesis by (simp add: Let_def)
  next
    case (Suc m)
    define w1 where "w1 = w\<lparr>sent := sent w @ [(Blocks (BuildMessageBlock (slackService a) r), None)],
                stdout := stdout w @ [''Message successfully sent to channel '' @ c @ '' at '' @ t @ newline]\<rparr>"
    from Cons.prems(2) [rule_format, of 0] Suc p have err: "err = None" by simp
    have m: "m < length rest" using Cons.prems(1) Suc by simp
    have a1: "\<forall>k < m. snd (snd (PostMessage (slackService a)
              (sent w1 @ map (\<lambda>r. (Blocks (BuildMessageBlock (slackService a) r), None)) (take k rest))
              (BuildMessageBlock (slackService a) (rest ! k)))) = None"
    proof (intro allI impI)
      fix k assume "k < m"
      then have "Suc k < n" using Suc by simp
      from Cons.prems(2) [rule_format, OF this] show "snd (snd (PostMessage (slackService a)
              (sent w1 @ map (\<lambda>r. (Blocks (BuildMessageBlock (slackService a) r), None)) (take k rest))
              (BuildMessageBlock (slackService a) (rest ! k)))) = None"
        by (simp add: w1_def)
    qed
    have a2: "snd (snd (PostMessage (slackService a)
              (sent w1 @ map (\<lambda>r. (Blocks (BuildMessageBlock (slackService a) r), None)) (take m rest))
              (BuildMessageBlock (slackService a) (rest ! m)))) = Some e"
      using Cons.prems(3) Suc by (simp add: w1_def)
    from Cons.IH [OF m a1 a2] obtain w' where
      "Handle_dispatch a rest w1 = (Some e, w')"
      "sent w' = sent w1 @ map (\<lambda>r. (Blocks (BuildMessageBlock (slackService a) r), None)) (take m rest)
                    @ [(Blocks (BuildMessageBlock (slackService a) (rest ! m)), Some e)]"
      by blast
    then show ?thesis using p err Suc by (simp add: Let_def w1_def)
  qed
qed

lemma failedRepos_acc:
  "foldl (\<lambda>s failed. s @ failed_RepositoryName failed @ newline) acc scanErrors
     = acc @ concat (map (\<lambda>failed. failed_RepositoryName failed @ newline) scanErrors)"
  by (induction scanErrors arbitrary: acc) simp_all

lemma failedRepos_concat:
  "failedRepos scanErrors = concat (map (\<lambda>failed. failed_RepositoryName failed @ newline) scanErrors)"
  by (simp add: failedRepos_def failedRepos_acc)


lemma newRepository_Inr:
  "newRepository a finding = Inr r \<Longrightarrow>
   \<exists>isf iid digest.
     finding_RepositoryName finding = Some (Name r) \<and> ImageScanFindings finding = Some isf
     \<and> finding_ImageId finding = Some iid \<and> ImageDigest iid = Some digest
     \<and> Count (Severity r) = FindingSeverityCounts isf
     \<and> Link (Severity r) = scanResultsLink (Name r) digest (region a)"
  by (auto simp: newRepository_def split: option.splits)

lemma Handle_filter_Inr:
  assumes "Handle_filter a i findings [] = Inr filtered"
  shows "\<forall>finding \<in> set findings. hasSeverityCounts finding \<longrightarrow> (\<exists>r. newRepository a finding = Inr r)"
    and "filtered = filter (\<lambda>r. minimumScore a i \<le> CalculateScore i (Severity r))
                      (map (\<lambda>finding. projr (newRepository a finding)) (filter hasSeverityCounts findings))"
proof -
  have c: "\<forall>finding \<in> set findings. hasSeverityCounts finding \<longrightarrow> \<not> isl (newRepository a finding)"
    using assms by (simp add: Handle_filter_eq split: if_splits)
  show "\<forall>finding \<in> set findings. hasSeverityCounts finding \<longrightarrow> (\<exists>r. newRepository a finding = Inr r)"
  proof (intro ballI impI)
    fix finding assume "finding \<in> set findings" "hasSeverityCounts finding"
    with c have "\<not> isl (newRepository a finding)" by blast
    then show "\<exists>r. newRepository a finding = Inr r" by (cases "newRepository a finding") auto
  qed
  show "filtered = filter (\<lambda>r. minimumScore a i \<le> CalculateScore i (Severity r))
                      (map (\<lambda>finding. projr (newRepository a finding)) (filter hasSeverityCounts findings))"
    using assms c by (simp add: Handle_filter_eq)
qed

lemma Handle_dispatch_succeeds:
  "\<forall>k < length rs. snd (snd (PostMessage (slackService a)
              (sent w @ map (\<lambda>r. (Blocks (BuildMessageBlock (slackService a) r), None)) (take k rs))
              (BuildMessageBlock (slackService a) (rs ! k)))) = None \<Longrightarrow>
   \<exists>w'. Handle_dispatch a rs w = (None, w') \<and>
        sent w' = sent w @ map (\<lambda>r. (Blocks (BuildMessageBlock (slackService a) r), None)) rs"
proof (induction rs arbitrary: w)
  case Nil
  then show ?case by simp
next
  case (Cons r rest)
  obtain c t err where p: "PostMessage (slackService a) (sent w) (BuildMessageBlock (slackService a) r) = (c, t, err)"
    by (cases "PostMessage (slackService a) (sent w) (BuildMessageBlock (slackService a) r)")
  define w1 where "w1 = w\<lparr>sent := sent w @ [(Blocks (BuildMessageBlock (slackService a) r), None)],
                stdout := stdout w @ [''Message successfully sent to channel '' @ c @ '' at '' @ t @ newline]\<rparr>"
  from Cons.prems [rule_format, of 0] p have err: "err = None" by simp
  have "\<forall>k < length rest. snd (snd (PostMessage (slackService a)
              (sent w1 @ map (\<lambda>r. (Blocks (BuildMessageBlock (slackService a) r), None)) (take k rest))
              (BuildMessageBlock (slackService a) (rest ! k)))) = None"
  proof (intro allI impI)
    fix k assume "k < length rest"
    then have "Suc k < length (r # rest)" by simp
    from Cons.prems [rule_format, OF this] show "snd (snd (PostMessage (slackService a)
              (sent w1 @ map (\<lambda>r. (Blocks (BuildMessageBlock (slackService a) r), None)) (take k rest))
              (BuildMessageBlock (slackService a) (rest ! k)))) = None"
      by (simp add: w1_def)
  qed
  from Cons.IH [OF this] obtain w' where
    "Handle_dispatch a rest w1 = (None, w')"
    "sent w' = sent w1 @ map (\<lambda>r. (Blocks (BuildMessageBlock (slackService a) r), None)) rest"
    by blast
  then show ?case using p err by (simp add: Let_def w1_def)
qed

lemma Handle_header_fails:
  assumes "ListRepositories a 1000 = (list, None)"
    and "GetFindings a list = Inr (findings, scanErrors)"
    and "Handle_filter a i findings [] = Inr filtered"
    and "PostStandaloneMessage (slackService a) [] (headerMsg today) = Some err"
  shows "Handle a i today =
           (Inr (errorResponse err), \<lparr>sent = [(Standalone (headerMsg today), Some err)], stdout = []\<rparr>)"
  using assms by (simp add: Handle_def sent_postStandalone)

lemma Handle_dispatch_fails:
  assumes "ListRepositories a 1000 = (list, None)"
    and "GetFindings a list = Inr (findings, scanErrors)"
    and "Handle_filter a i findings [] = Inr filtered"
    and "PostStandaloneMessage (slackService a) [] (headerMsg today) = None"
    and "Handle_dispatch a filtered \<lparr>sent = [(Standalone (headerMsg today), None)], stdout = []\<rparr>
           = (Some err, w2)"
  shows "Handle a i today = (Inr (errorResponse err), w2)"
  using assms by (simp add: Handle_def sent_postStandalone)

lemma Handle_dispatch_done:
  assumes "ListRepositories a 1000 = (list, None)"
    and "GetFindings a list = Inr (findings, scanErrors)"
    and "Handle_filter a i findings [] = Inr filtered"
    and "PostStandaloneMessage (slackService a) [] (headerMsg today) = None"
    and "Handle_dispatch a filtered \<lparr>sent = [(Standalone (headerMsg today), None)], stdout = []\<rparr>
           = (None, w2)"
  shows "Handle a i today =
           (if scanErrors = [] then (Inr \<lparr>StatusCode = 200, Body = []\<rparr>, w2)
            else (case PostStandaloneMessage (slackService a) (sent w2) errorMsg of
                    Some err \<Rightarrow>
                      (Inr (errorResponse err), w2\<lparr>sent := sent w2 @ [(Standalone errorMsg, Some err)]\<rparr>)
                  | None \<Rightarrow>
                      (case PostStandaloneMessage (slackService a)
                              (sent w2 @ [(Standalone errorMsg, None)]) (failedRepos scanErrors) of
                         Some err \<Rightarrow>
                           (Inr (errorResponse err),
                            w2\<lparr>sent := sent w2 @ [(Standalone errorMsg, None),
                                                   (Standalone (failedRepos scanErrors), Some err)]\<rparr>)
                       | None \<Rightarrow>
                           (Inr \<lparr>StatusCode = 200, Body = []\<rparr>,
                            w2\<lparr>sent := sent w2 @ [(Standalone errorMsg, None),
                                                   (Standalone (failedRepos scanErrors), None)]\<rparr>))))"
  using assms by (simp add: Handle_def sent_postStandalone split: option.splits)

lemma find_first_error:
  assumes "n < m" and "f n = Some e" and "\<forall>k < n. f k = None"
  shows "List.find (\<lambda>x. x \<noteq> None) (map f [0..<m] @ ys) = Some (Some e)"
proof -
  have "\<exists>i < length (map f [0..<m] @ ys).
          (map f [0..<m] @ ys) ! i \<noteq> None \<and> Some e = (map f [0..<m] @ ys) ! i
          \<and> (\<forall>j < i. \<not> (map f [0..<m] @ ys) ! j \<noteq> None)"
    using assms by (intro exI [of _ n]) (simp add: nth_append)
  then show ?thesis by (simp only: find_Some_iff)
qed

lemma find_append_first:
  "List.find P (xs @ ys) = (case List.find P xs of None \<Rightarrow> List.find P ys | Some x \<Rightarrow> Some x)"
  by (induction xs) simp_all

lemma find_no_error:
  assumes "\<forall>k < m. f k = None"
  shows "List.find (\<lambda>x. x \<noteq> None) (map f [0..<m] @ ys) = List.find (\<lambda>x. x \<noteq> None) ys"
proof -
  have "List.find (\<lambda>x. x \<noteq> None) (map f [0..<m]) = None"
    using assms by (simp add: find_None_iff)
  then show ?thesis by (simp add: find_append_first)
qed

lemmas example_defs = example_registry_def example_finding_def empty_output_def
  example_slack_def example_app_def example_internal_def example_answers_def
  example_repository_def

lemma example_slackService: "slackService (example_app e s) = s"
  by (simp add: example_app_def)

lemma example_listing:
  "ListRepositories (example_app (example_registry example_answers) s) 1000
     = (Some \<lparr>Repositories = [Some \<lparr>repo_RepositoryName = Some ''api''\<rparr>,
                               Some \<lparr>repo_RepositoryName = Some ''web''\<rparr>,
                               Some \<lparr>repo_RepositoryName = Some ''db''\<rparr>,
                               Some \<lparr>repo_RepositoryName = Some ''cache''\<rparr>,
                               Some \<lparr>repo_RepositoryName = Some ''old''\<rparr>]\<rparr>, None)"
  by (simp add: ListRepositories_def example_defs)

lemma example_findings:
  "GetFindings (example_app (example_registry example_answers) s)
     (Some \<lparr>Repositories = [Some \<lparr>repo_RepositoryName = Some ''api''\<rparr>,
                               Some \<lparr>repo_RepositoryName = Some ''web''\<rparr>,
                               Some \<lparr>repo_RepositoryName = Some ''db''\<rparr>,
                               Some \<lparr>repo_RepositoryName = Some ''cache''\<rparr>,
                               Some \<lparr>repo_RepositoryName = Some ''old''\<rparr>]\<rparr>)
     = Inr ([example_finding ''api'' [(''HIGH'', 3)],
             example_finding ''web'' [(''CRITICAL'', 1), (''HIGH'', 4)],
             example_finding ''db'' [(''LOW'', 2)],
             example_finding ''cache'' [(''HIGH'', 7)],
             empty_output],
            [\<lparr>failed_RepositoryName = ''old''\<rparr>])"
  by (simp add: GetFindings_def describeInput_def example_registry_def example_app_def example_answers_def)

lemma example_filtered:
  "Handle_filter (example_app e s) example_internal
     [example_finding ''api'' [(''HIGH'', 3)],
             example_finding ''web'' [(''CRITICAL'', 1), (''HIGH'', 4)],
             example_finding ''db'' [(''LOW'', 2)],
             example_finding ''cache'' [(''HIGH'', 7)],
             empty_output] []
     = Inr [example_repository ''api'' [(''HIGH'', 3)],
            example_repository ''web'' [(''CRITICAL'', 1), (''HIGH'', 4)],
            example_repository ''cache'' [(''HIGH'', 7)]]"
  by (simp add: hasSeverityCounts_def newRepository_def minimumScore_def example_finding_def
      empty_output_def example_app_def example_internal_def example_repository_def)

lemma Handle_dispatch_slackService:
  "slackService a' = slackService a \<Longrightarrow> Handle_dispatch a' rs w = Handle_dispatch a rs w"
  by (induction rs arbitrary: w) (simp_all add: Let_def split: prod.splits option.splits)

lemma Handle_same_run:
  assumes "ListRepositories a 1000 = (list, None)" and "ListRepositories a' 1000 = (list', None)"
    and "GetFindings a list = Inr (findings, scanErrors)"
    and "GetFindings a' list' = Inr (findings', scanErrors)"
    and "Handle_filter a i findings [] = Handle_filter a' i findings' []"
    and "slackService a' = slackService a"
  shows "Handle a i today = Handle a' i today"
proof -
  have p: "postStandalone a' = postStandalone a"
    by (simp add: fun_eq_iff postStandalone_def assms(6))
  have d: "Handle_dispatch a' = Handle_dispatch a"
    by (simp add: fun_eq_iff Handle_dispatch_slackService [OF assms(6)])
  show ?thesis
    unfolding Handle_def p d by (simp add: assms(1-5))
qed


subsection \<open>Finding collection\<close>

text \<open>
  C1. Claimed: \<^verbatim>\<open>GetFindings\<close> places each input repository in exactly one of the findings
  list and the \<^verbatim>\<open>ScanErrors\<close> list, in input order, and no failed lookup aborts the batch.
  The code at a failed lookup: with three repositories of which the second lookup returns
  \<^verbatim>\<open>(nil, err)\<close>, the call ends in a nil dereference after the error was recorded, and
  nothing is returned for the first and third repository either. Where the client returns
  an empty output beside the error, the repository is appended to both lists.
\<close>

theorem GetFindings_failed_lookup:
  "GetFindings
     (example_app (example_registry
        [(''api'', (Some (example_finding ''api'' [(''HIGH'', 1)]), None)),
         (''web'', (None, Some (GoError ''ScanNotFoundException''))),
         (''db'', (Some (example_finding ''db'' [(''LOW'', 2)]), None))]) example_slack)
     (Some \<lparr>Repositories = [Some \<lparr>repo_RepositoryName = Some ''api''\<rparr>,
                             Some \<lparr>repo_RepositoryName = Some ''web''\<rparr>,
                             Some \<lparr>repo_RepositoryName = Some ''db''\<rparr>]\<rparr>)
     = Inl NilPointerDereference
   \<and> GetFindings
     (example_app (example_registry
        [(''web'', (Some empty_output, Some (GoError ''ScanNotFoundException'')))]) example_slack)
     (Some \<lparr>Repositories = [Some \<lparr>repo_RepositoryName = Some ''web''\<rparr>]\<rparr>)
     = Inr ([empty_output], [\<lparr>failed_RepositoryName = ''web''\<rparr>])"
  by (simp add: GetFindings_def describeInput_def example_defs)

text \<open>
  C2. Claimed: \<^verbatim>\<open>GetFindings\<close> returns only when every lookup succeeds, and any lookup that
  returns an error ends in a nil-pointer dereference. The dereference of line 58 fails only
  on a nil result: a lookup that returns an error beside a result that is not nil is
  recorded and the call goes on and returns.
\<close>

theorem GetFindings_error_without_panic:
  "snd (DescribeImageScanFindings
          (ecrService (example_app (example_registry example_answers) example_slack))
          (describeInput (example_app (example_registry example_answers) example_slack)
             \<lparr>repo_RepositoryName = Some ''old''\<rparr>))
     = Some (GoError ''ScanNotFoundException'')
   \<and> GetFindings (example_app (example_registry example_answers) example_slack)
       (Some \<lparr>Repositories = [Some \<lparr>repo_RepositoryName = Some ''api''\<rparr>,
                               Some \<lparr>repo_RepositoryName = Some ''old''\<rparr>]\<rparr>)
     = Inr ([example_finding ''api'' [(''HIGH'', 3)], empty_output],
            [\<lparr>failed_RepositoryName = ''old''\<rparr>])"
  by (simp add: GetFindings_def describeInput_def example_registry_def example_app_def
      example_answers_def)

text \<open>
  C2, as the code has it. \<^verbatim>\<open>GetFindings\<close> ends in a nil-pointer dereference exactly when the
  list holds a nil element, or a repository whose lookup returns a nil result (with or
  without an error), or a repository without a name whose lookup returns an error. In every
  other case it returns: one finding per listed repository, in order, and the names of the
  repositories whose lookup returned an error, in order. So a lookup that returns an error
  and a nil result always ends the call, and one that returns an error beside a result
  puts the repository in both lists.
\<close>

theorem GetFindings_nil_dereference:
  "GetFindings a (Some \<lparr>Repositories = repos\<rparr>) =
     (if \<exists>r \<in> set repos.
           r = None
           \<or> fst (DescribeImageScanFindings (ecrService a) (describeInput a (the r))) = None
           \<or> (snd (DescribeImageScanFindings (ecrService a) (describeInput a (the r))) \<noteq> None
                \<and> repo_RepositoryName (the r) = None)
      then Inl NilPointerDereference
      else Inr (map (\<lambda>r. the (fst (DescribeImageScanFindings (ecrService a)
                                      (describeInput a (the r))))) repos,
                map (\<lambda>r. \<lparr>failed_RepositoryName = the (repo_RepositoryName (the r))\<rparr>)
                  (filter (\<lambda>r. snd (DescribeImageScanFindings (ecrService a)
                                       (describeInput a (the r))) \<noteq> None) repos)))"
proof -
  let ?look = "\<lambda>r. DescribeImageScanFindings (ecrService a) (describeInput a (the r))"
  let ?ok = "\<forall>r \<in> set repos. r \<noteq> None \<and> fst (?look r) \<noteq> None
               \<and> (snd (?look r) \<noteq> None \<longrightarrow> repo_RepositoryName (the r) \<noteq> None)"
  let ?bad = "\<exists>r \<in> set repos. r = None \<or> fst (?look r) = None
               \<or> (snd (?look r) \<noteq> None \<and> repo_RepositoryName (the r) = None)"
  let ?res = "Inr (map (\<lambda>r. the (fst (?look r))) repos,
                map (\<lambda>r. \<lparr>failed_RepositoryName = the (repo_RepositoryName (the r))\<rparr>)
                  (filter (\<lambda>r. snd (?look r) \<noteq> None) repos))
              :: panic + DescribeImageScanFindingsOutput list \<times> ScanErrors list"
  have g: "GetFindings a (Some \<lparr>Repositories = repos\<rparr>)
             = (if ?ok then ?res else Inl NilPointerDereference)"
    by (simp add: GetFindings_def GetFindings_loop_eq del: not_None_eq cong: if_cong)
  show ?thesis
  proof (cases ?ok)
    case True
    then have nb: "\<not> ?bad" by auto
    show ?thesis by (simp only: g if_P [OF True] if_not_P [OF nb])
  next
    case False
    then have b: "?bad" by auto
    show ?thesis by (simp only: g if_not_P [OF False] if_P [OF b])
  qed
qed

theorem GetFindings_nil_dereference_witness:
  "GetFindings
       (example_app (example_registry
          [(''api'', (Some (example_finding ''api'' [(''HIGH'', 1)]), None)),
           (''web'', (None, Some (GoError ''ScanNotFoundException''))),
           (''db'', (Some (example_finding ''db'' [(''LOW'', 2)]), None))]) example_slack)
       (Some \<lparr>Repositories = [Some \<lparr>repo_RepositoryName = Some ''api''\<rparr>,
                               Some \<lparr>repo_RepositoryName = Some ''web''\<rparr>,
                               Some \<lparr>repo_RepositoryName = Some ''db''\<rparr>]\<rparr>)
     = Inl NilPointerDereference
   \<and> GetFindings
       (example_app (example_registry
          [(''api'', (Some (example_finding ''api'' [(''HIGH'', 1)]), None)),
           (''web'', (Some empty_output, Some (GoError ''ScanNotFoundException''))),
           (''db'', (Some (example_finding ''db'' [(''LOW'', 2)]), None))]) example_slack)
       (Some \<lparr>Repositories = [Some \<lparr>repo_RepositoryName = Some ''api''\<rparr>,
                               Some \<lparr>repo_RepositoryName = Some ''web''\<rparr>,
                               Some \<lparr>repo_RepositoryName = Some ''db''\<rparr>]\<rparr>)
     = Inr ([example_finding ''api'' [(''HIGH'', 1)], empty_output,
             example_finding ''db'' [(''LOW'', 2)]],
            [\<lparr>failed_RepositoryName = ''web''\<rparr>])"
  using GetFindings_nil_dereference [of
      "example_app (example_registry
          [(''api'', (Some (example_finding ''api'' [(''HIGH'', 1)]), None)),
           (''web'', (None, Some (GoError ''ScanNotFoundException''))),
           (''db'', (Some (example_finding ''db'' [(''LOW'', 2)]), None))]) example_slack"
      "[Some \<lparr>repo_RepositoryName = Some ''api''\<rparr>, Some \<lparr>repo_RepositoryName = Some ''web''\<rparr>,
        Some \<lparr>repo_RepositoryName = Some ''db''\<rparr>]"]
    GetFindings_nil_dereference [of
      "example_app (example_registry
          [(''api'', (Some (example_finding ''api'' [(''HIGH'', 1)]), None)),
           (''web'', (Some empty_output, Some (GoError ''ScanNotFoundException''))),
           (''db'', (Some (example_finding ''db'' [(''LOW'', 2)]), None))]) example_slack"
      "[Some \<lparr>repo_RepositoryName = Some ''api''\<rparr>, Some \<lparr>repo_RepositoryName = Some ''web''\<rparr>,
        Some \<lparr>repo_RepositoryName = Some ''db''\<rparr>]"]
  by (simp add: describeInput_def example_registry_def example_app_def)

subsection \<open>Filtering\<close>

text \<open>
  C4. For a finding that carries severity counts, in a run of the filter loop that returns:
  its repository is left out of the filtered list exactly when its score is strictly below
  the score that \<^verbatim>\<open>SeverityTable\<close> gives the configured minimum severity, and a repository
  whose score equals that score is in the list.
\<close>

theorem Handle_filter_threshold:
  assumes "Handle_filter a i findings [] = Inr filtered"
    and "finding \<in> set findings" and "hasSeverityCounts finding"
  shows "\<exists>r. newRepository a finding = Inr r
           \<and> (r \<notin> set filtered \<longleftrightarrow> CalculateScore i (Severity r) < minimumScore a i)
           \<and> (CalculateScore i (Severity r) = minimumScore a i \<longrightarrow> r \<in> set filtered)"
proof -
  from Handle_filter_Inr(1) [OF assms(1)] assms(2,3) obtain r where r: "newRepository a finding = Inr r"
    by blast
  have "r \<in> set (map (\<lambda>finding. projr (newRepository a finding)) (filter hasSeverityCounts findings))"
    using assms(2,3) r by force
  then have "r \<in> set filtered \<longleftrightarrow> minimumScore a i \<le> CalculateScore i (Severity r)"
    using Handle_filter_Inr(2) [OF assms(1)] by simp
  with r show ?thesis by auto
qed

theorem Handle_filter_threshold_witness:
  "Handle_filter (example_app (example_registry []) example_slack) example_internal
     [example_finding ''api'' [(''HIGH'', 3)], example_finding ''db'' [(''LOW'', 2)]] []
     = Inr [\<lparr>Name = ''api'', Severity = \<lparr>Count = [(''HIGH'', 3)],
              Link = scanResultsLink ''api'' ''sha256:0a'' ''eu-west-1''\<rparr>\<rparr>]
   \<and> example_finding ''api'' [(''HIGH'', 3)]
       \<in> set [example_finding ''api'' [(''HIGH'', 3)], example_finding ''db'' [(''LOW'', 2)]]
   \<and> hasSeverityCounts (example_finding ''api'' [(''HIGH'', 3)])
   \<and> (\<exists>r. newRepository (example_app (example_registry []) example_slack)
             (example_finding ''api'' [(''HIGH'', 3)]) = Inr r
           \<and> CalculateScore example_internal (Severity r)
               = minimumScore (example_app (example_registry []) example_slack) example_internal
           \<and> r \<in> set [\<lparr>Name = ''api'', Severity = \<lparr>Count = [(''HIGH'', 3)],
                  Link = scanResultsLink ''api'' ''sha256:0a'' ''eu-west-1''\<rparr>\<rparr>])"
proof -
  let ?a = "example_app (example_registry []) example_slack"
  let ?fs = "[example_finding ''api'' [(''HIGH'', 3)], example_finding ''db'' [(''LOW'', 2)]]"
  let ?r = "\<lparr>Name = ''api'', Severity = \<lparr>Count = [(''HIGH'', 3)],
              Link = scanResultsLink ''api'' ''sha256:0a'' ''eu-west-1''\<rparr>\<rparr>"
  have h: "Handle_filter ?a example_internal ?fs [] = Inr [?r]"
    by (simp add: hasSeverityCounts_def newRepository_def minimumScore_def example_defs)
  have m: "example_finding ''api'' [(''HIGH'', 3)] \<in> set ?fs" by simp
  have c: "hasSeverityCounts (example_finding ''api'' [(''HIGH'', 3)])"
    by (simp add: hasSeverityCounts_def example_defs)
  have n: "newRepository ?a (example_finding ''api'' [(''HIGH'', 3)]) = Inr ?r"
    by (simp add: newRepository_def example_defs)
  have s: "CalculateScore example_internal (Severity ?r) = minimumScore ?a example_internal"
    by (simp add: minimumScore_def example_defs)
  from Handle_filter_threshold [OF h m c] n s h m c show ?thesis by simp
qed

text \<open>
  C10. Every repository in the filtered list comes from a finding whose name is the
  repository's name, and its link is the text
  \<^verbatim>\<open>https://console.aws.amazon.com/ecr/repositories/<name>/image/<digest>/scan-results?region=<region>\<close>
  with that name, the finding's image digest and the configured region.
\<close>

theorem Handle_filter_link:
  assumes "Handle_filter a i findings [] = Inr filtered" and "r \<in> set filtered"
  shows "\<exists>finding \<in> set findings. \<exists>iid digest.
           finding_RepositoryName finding = Some (Name r)
           \<and> finding_ImageId finding = Some iid \<and> ImageDigest iid = Some digest
           \<and> Link (Severity r) =
               ''https://console.aws.amazon.com/ecr/repositories/'' @ Name r @ ''/image/'' @ digest
                 @ ''/scan-results?region='' @ region a"
proof -
  from Handle_filter_Inr(2) [OF assms(1)] assms(2)
  obtain finding where f: "finding \<in> set findings" "hasSeverityCounts finding"
    "r = projr (newRepository a finding)"
    by auto
  from Handle_filter_Inr(1) [OF assms(1)] f obtain r' where "newRepository a finding = Inr r'"
    by blast
  with f(3) have "newRepository a finding = Inr r" by simp
  from newRepository_Inr [OF this] f(1) show ?thesis
    by (auto simp: scanResultsLink_def)
qed

theorem Handle_filter_link_witness:
  "Handle_filter (example_app (example_registry []) example_slack) example_internal
     [example_finding ''api'' [(''HIGH'', 3)]] []
     = Inr [\<lparr>Name = ''api'', Severity = \<lparr>Count = [(''HIGH'', 3)],
              Link = ''https://console.aws.amazon.com/ecr/repositories/api/image/sha256:0a/scan-results?region=eu-west-1''\<rparr>\<rparr>]
   \<and> (\<exists>iid digest.
           finding_RepositoryName (example_finding ''api'' [(''HIGH'', 3)]) = Some ''api''
           \<and> finding_ImageId (example_finding ''api'' [(''HIGH'', 3)]) = Some iid
           \<and> ImageDigest iid = Some digest
           \<and> ''https://console.aws.amazon.com/ecr/repositories/api/image/sha256:0a/scan-results?region=eu-west-1'' =
               ''https://console.aws.amazon.com/ecr/repositories/'' @ ''api'' @ ''/image/'' @ digest
                 @ ''/scan-results?region='' @ ''eu-west-1'')"
proof -
  let ?a = "example_app (example_registry []) example_slack"
  let ?r = "\<lparr>Name = ''api'', Severity = \<lparr>Count = [(''HIGH'', 3)],
              Link = ''https://console.aws.amazon.com/ecr/repositories/api/image/sha256:0a/scan-results?region=eu-west-1''\<rparr>\<rparr>"
  have h: "Handle_filter ?a example_internal [example_finding ''api'' [(''HIGH'', 3)]] [] = Inr [?r]"
    by (simp add: hasSeverityCounts_def newRepository_def minimumScore_def scanResultsLink_def
        example_defs)
  have m: "?r \<in> set [?r]" by simp
  from Handle_filter_link [OF h m] h show ?thesis
    by (simp add: example_app_def)
qed

subsection \<open>The invocation\<close>

text \<open>
  C6. When listing the repositories fails, \<^verbatim>\<open>Handle\<close> returns the failure response with that
  error's message, and the dispatch log is empty: no message of any kind was handed to the
  chat client.
\<close>

theorem Handle_listing_failure:
  assumes "ListRepositories a 1000 = (list, Some err)"
  shows "Handle a i today = (Inr \<lparr>StatusCode = 500, Body = Error err\<rparr>, \<lparr>sent = [], stdout = []\<rparr>)"
  using assms by (simp add: Handle_def errorResponse_def)

theorem Handle_listing_failure_witness:
  "ListRepositories (example_app example_registry_down example_slack) 1000
     = (None, Some (GoError ''AccessDeniedException''))
   \<and> Handle (example_app example_registry_down example_slack) example_internal ''2026 Nov 01''
     = (Inr \<lparr>StatusCode = 500, Body = ''AccessDeniedException''\<rparr>, \<lparr>sent = [], stdout = []\<rparr>)"
proof -
  have h: "ListRepositories (example_app example_registry_down example_slack) 1000
     = (None, Some (GoError ''AccessDeniedException''))"
    by (simp add: ListRepositories_def example_app_def example_registry_down_def)
  from Handle_listing_failure [OF h, of example_internal "''2026 Nov 01''"] h
  show ?thesis by simp
qed

text \<open>
  C3. In an invocation that listed, collected and filtered, and whose header was delivered:
  when the dispatch of the block at position \<open>n\<close> of the filtered list is the first to fail,
  the dispatch log is the header, the blocks before position \<open>n\<close> and the failed attempt,
  and nothing else (no later block and no error digest), and the response is the failure
  response with that transport error's message.
\<close>

theorem Handle_dispatch_abort:
  assumes "ListRepositories a 1000 = (list, None)"
    and "GetFindings a list = Inr (findings, scanErrors)"
    and "Handle_filter a i findings [] = Inr filtered"
    and "PostStandaloneMessage (slackService a) [] (headerMsg today) = None"
    and "n < length filtered"
    and "\<forall>k < n. snd (snd (PostMessage (slackService a)
            ((Standalone (headerMsg today), None)
               # map (\<lambda>r. (Blocks (BuildMessageBlock (slackService a) r), None)) (take k filtered))
            (BuildMessageBlock (slackService a) (filtered ! k)))) = None"
    and "snd (snd (PostMessage (slackService a)
            ((Standalone (headerMsg today), None)
               # map (\<lambda>r. (Blocks (BuildMessageBlock (slackService a) r), None)) (take n filtered))
            (BuildMessageBlock (slackService a) (filtered ! n)))) = Some err"
  shows "fst (Handle a i today) = Inr \<lparr>StatusCode = 500, Body = Error err\<rparr>
       \<and> sent (snd (Handle a i today)) =
           (Standalone (headerMsg today), None)
             # map (\<lambda>r. (Blocks (BuildMessageBlock (slackService a) r), None)) (take n filtered)
             @ [(Blocks (BuildMessageBlock (slackService a) (filtered ! n)), Some err)]"
proof -
  let ?w1 = "\<lparr>sent = [(Standalone (headerMsg today), None)], stdout = []\<rparr> :: 'a world"
  from Handle_dispatch_fails_at [of n filtered a ?w1 err] assms(5,6,7)
  obtain w2 where w2: "Handle_dispatch a filtered ?w1 = (Some err, w2)"
    "sent w2 = sent ?w1 @ map (\<lambda>r. (Blocks (BuildMessageBlock (slackService a) r), None)) (take n filtered)
                 @ [(Blocks (BuildMessageBlock (slackService a) (filtered ! n)), Some err)]"
    by auto
  from Handle_dispatch_fails [OF assms(1-4) w2(1)] w2(2) show ?thesis
    by (simp add: errorResponse_def)
qed

theorem Handle_dispatch_abort_witness:
  "fst (Handle (example_app (example_registry example_answers) example_slack_failing)
          example_internal ''2026 Nov 01'')
     = Inr \<lparr>StatusCode = 500, Body = ''channel_not_found''\<rparr>
   \<and> sent (snd (Handle (example_app (example_registry example_answers) example_slack_failing)
          example_internal ''2026 Nov 01''))
     = [(Standalone ''*Scan results on 2026 Nov 01*'', None),
        (Blocks [''api'', scanResultsLink ''api'' ''sha256:0a'' ''eu-west-1''], None),
        (Blocks [''web'', scanResultsLink ''web'' ''sha256:0a'' ''eu-west-1''],
         Some (GoError ''channel_not_found''))]"
proof -
  let ?a = "example_app (example_registry example_answers) example_slack_failing"
  let ?filtered = "[example_repository ''api'' [(''HIGH'', 3)],
            example_repository ''web'' [(''CRITICAL'', 1), (''HIGH'', 4)],
            example_repository ''cache'' [(''HIGH'', 7)]]"
  have h: "PostStandaloneMessage (slackService ?a) [] (headerMsg ''2026 Nov 01'') = None"
    by (simp add: example_app_def example_slack_failing_def)
  have n: "1 < length ?filtered" by simp
  have before: "\<forall>k < 1. snd (snd (PostMessage (slackService ?a)
            ((Standalone (headerMsg ''2026 Nov 01''), None)
               # map (\<lambda>r. (Blocks (BuildMessageBlock (slackService ?a) r), None)) (take k ?filtered))
            (BuildMessageBlock (slackService ?a) (?filtered ! k)))) = None"
    by (simp add: example_app_def example_slack_failing_def)
  have at: "snd (snd (PostMessage (slackService ?a)
            ((Standalone (headerMsg ''2026 Nov 01''), None)
               # map (\<lambda>r. (Blocks (BuildMessageBlock (slackService ?a) r), None)) (take 1 ?filtered))
            (BuildMessageBlock (slackService ?a) (?filtered ! 1)))) = Some (GoError ''channel_not_found'')"
    by (simp add: example_app_def example_slack_failing_def)
  from Handle_dispatch_abort [OF example_listing example_findings example_filtered h n before at]
  show ?thesis
    by (simp add: headerMsg_def example_app_def example_slack_failing_def example_repository_def)
qed

text \<open>
  C7. The outcome of every invocation, from the answers of the collaborators alone. When the
  listing fails, the response is status 500 with that error's message as body. Otherwise
  (and when collecting and filtering end in no nil dereference) the messages are the
  header, one block per filtered repository and, when the \<^verbatim>\<open>ScanErrors\<close> list is not empty,
  the alert and the list of names; \<open>answers\<close> lists what the chat client answers to each,
  asked after all the earlier ones were delivered. The response is status 500 with the
  message of the first error among these answers as body, unchanged, and status 200 with
  an empty body when there is none.
\<close>

theorem Handle_response:
  "fst (Handle a i today) =
     (case ListRepositories a 1000 of
        (list, Some err) \<Rightarrow> Inr \<lparr>StatusCode = 500, Body = Error err\<rparr>
      | (list, None) \<Rightarrow>
          (case GetFindings a list of
             Inl p \<Rightarrow> Inl p
           | Inr (findings, scanErrors) \<Rightarrow>
               (case Handle_filter a i findings [] of
                  Inl p \<Rightarrow> Inl p
                | Inr filtered \<Rightarrow>
                    (let header = (Standalone (headerMsg today), None);
                         blocks = map (\<lambda>r. (Blocks (BuildMessageBlock (slackService a) r), None))
                                    filtered;
                         answers =
                           PostStandaloneMessage (slackService a) [] (headerMsg today)
                           # map (\<lambda>k. snd (snd (PostMessage (slackService a)
                                                  (header # take k blocks)
                                                  (BuildMessageBlock (slackService a) (filtered ! k)))))
                               [0..<length filtered]
                           @ (if scanErrors = [] then []
                              else [PostStandaloneMessage (slackService a) (header # blocks) errorMsg,
                                    PostStandaloneMessage (slackService a)
                                      (header # blocks @ [(Standalone errorMsg, None)])
                                      (failedRepos scanErrors)])
                     in case List.find (\<lambda>answer. answer \<noteq> None) answers of
                          Some (Some err) \<Rightarrow> Inr \<lparr>StatusCode = 500, Body = Error err\<rparr>
                        | _ \<Rightarrow> Inr \<lparr>StatusCode = 200, Body = []\<rparr>))))"
  (is "_ = ?rhs")
proof -
  obtain list lerr where L: "ListRepositories a 1000 = (list, lerr)"
    by (cases "ListRepositories a 1000")
  show ?thesis
  proof (cases lerr)
    case (Some e)
    with L show ?thesis by (simp add: Handle_def errorResponse_def)
  next
    case None
    note L = L [unfolded None]
    show ?thesis
    proof (cases "GetFindings a list")
      case (Inl p)
      with L show ?thesis by (simp add: Handle_def)
    next
      case (Inr fe)
      obtain findings scanErrors where "fe = (findings, scanErrors)" by (cases fe)
      with Inr have G: "GetFindings a list = Inr (findings, scanErrors)" by simp
      show ?thesis
      proof (cases "Handle_filter a i findings []")
        case (Inl p)
        with L G show ?thesis by (simp add: Handle_def)
      next
        case F: (Inr filtered)
        let ?hdr = "(Standalone (headerMsg today), None) :: 'a message \<times> go_error option"
        let ?blk = "\<lambda>r. (Blocks (BuildMessageBlock (slackService a) r), None :: go_error option)"
        let ?w1 = "\<lparr>sent = [?hdr], stdout = []\<rparr> :: 'a world"
        let ?ok = "Inr \<lparr>StatusCode = 200, Body = []\<rparr> :: panic + APIGatewayProxyResponse"
        define h where "h = PostStandaloneMessage (slackService a) [] (headerMsg today)"
        define pb where "pb = (\<lambda>k. snd (snd (PostMessage (slackService a)
                                  (?hdr # take k (map ?blk filtered))
                                  (BuildMessageBlock (slackService a) (filtered ! k)))))"
        define e1 where "e1 = PostStandaloneMessage (slackService a) (?hdr # map ?blk filtered) errorMsg"
        define e2 where "e2 = PostStandaloneMessage (slackService a)
                                (?hdr # map ?blk filtered @ [(Standalone errorMsg, None)])
                                (failedRepos scanErrors)"
        define digest where "digest = (if scanErrors = [] then [] else [e1, e2])"
        have R: "fst (Handle a i today) =
                   (case List.find (\<lambda>answer. answer \<noteq> None) (h # map pb [0..<length filtered] @ digest) of
                      Some (Some err) \<Rightarrow> Inr \<lparr>StatusCode = 500, Body = Error err\<rparr>
                    | _ \<Rightarrow> ?ok)"
        proof (cases h)
          case (Some e)
          from Handle_header_fails [OF L G F Some [unfolded h_def]] Some
          show ?thesis by (simp add: errorResponse_def)
        next
          case H: None
          show ?thesis
          proof (cases "\<exists>k < length filtered. pb k \<noteq> None")
            case True
            define n where "n = (LEAST k. k < length filtered \<and> pb k \<noteq> None)"
            from True have n: "n < length filtered \<and> pb n \<noteq> None"
              unfolding n_def by (rule LeastI_ex)
            have before: "\<forall>k < n. pb k = None"
            proof (intro allI impI)
              fix k assume "k < n"
              then have "\<not> (k < length filtered \<and> pb k \<noteq> None)"
                unfolding n_def by (rule not_less_Least)
              with \<open>k < n\<close> n show "pb k = None" by simp
            qed
            from n obtain e where e: "pb n = Some e" by auto
            have f: "List.find (\<lambda>answer. answer \<noteq> None) (h # map pb [0..<length filtered] @ digest)
                       = Some (Some e)"
              using H find_first_error [of n "length filtered" pb e digest] n e before by simp
            from Handle_dispatch_fails_at [of n filtered a ?w1 e] n e before
            obtain w2 where "Handle_dispatch a filtered ?w1 = (Some e, w2)"
              by (auto simp: pb_def take_map)
            from Handle_dispatch_fails [OF L G F H [unfolded h_def] this] f
            show ?thesis by (simp add: errorResponse_def)
          next
            case False
            then have all: "\<forall>k < length filtered. pb k = None" by auto
            have f: "List.find (\<lambda>answer. answer \<noteq> None) (h # map pb [0..<length filtered] @ digest)
                       = List.find (\<lambda>answer. answer \<noteq> None) digest"
              using H find_no_error [OF all, of digest] by simp
            from Handle_dispatch_succeeds [of filtered a ?w1] all
            obtain w2 where w2: "Handle_dispatch a filtered ?w1 = (None, w2)"
              "sent w2 = ?hdr # map ?blk filtered"
              by (auto simp: pb_def take_map)
            note D = Handle_dispatch_done [OF L G F H [unfolded h_def] w2(1)]
            show ?thesis
            proof (cases "scanErrors = []")
              case True
              with D f show ?thesis by (simp add: digest_def)
            next
              case ne: False
              show ?thesis
              proof (cases e1)
                case (Some e)
                with D f ne w2(2) show ?thesis
                  by (simp add: digest_def e1_def [symmetric] errorResponse_def)
              next
                case E1: None
                show ?thesis
                proof (cases e2)
                  case (Some e)
                  with D f ne w2(2) E1 show ?thesis
                    by (simp add: digest_def e1_def [symmetric] e2_def [symmetric] errorResponse_def)
                next
                  case None
                  with D f ne w2(2) E1 show ?thesis
                    by (simp add: digest_def e1_def [symmetric] e2_def [symmetric])
                qed
              qed
            qed
          qed
        qed
        have rhs: "?rhs =
                   (case List.find (\<lambda>answer. answer \<noteq> None) (h # map pb [0..<length filtered] @ digest) of
                      Some (Some err) \<Rightarrow> Inr \<lparr>StatusCode = 500, Body = Error err\<rparr>
                    | _ \<Rightarrow> ?ok)"
          by (simp add: L G F Let_def h_def pb_def e1_def e2_def digest_def)
        show ?thesis unfolding rhs by (rule R)
      qed
    qed
  qed
qed

theorem Handle_response_witness:
  "fst (Handle (example_app (example_registry example_answers) example_slack) example_internal
          ''2026 Nov 01'') = Inr \<lparr>StatusCode = 200, Body = []\<rparr>
   \<and> fst (Handle (example_app (example_registry example_answers) example_slack_throttled)
          example_internal ''2026 Nov 01'') = Inr \<lparr>StatusCode = 500, Body = ''rate_limited''\<rparr>"
proof (rule conjI)
  show "fst (Handle (example_app (example_registry example_answers) example_slack) example_internal
          ''2026 Nov 01'') = Inr \<lparr>StatusCode = 200, Body = []\<rparr>"
    by (simp only: Handle_response example_listing example_findings example_filtered
          prod.case option.case sum.case)
       (simp add: example_slackService example_slack_def Let_def)
  show "fst (Handle (example_app (example_registry example_answers) example_slack_throttled)
          example_internal ''2026 Nov 01'') = Inr \<lparr>StatusCode = 500, Body = ''rate_limited''\<rparr>"
    by (simp only: Handle_response example_listing example_findings example_filtered
          prod.case option.case sum.case)
       (simp add: example_slackService example_slack_throttled_def Let_def)
qed

text \<open>
  C8. Claimed: the error digest is dispatched exactly when the \<^verbatim>\<open>ScanErrors\<close> list is not
  empty, and its body is the failed repository names joined by newlines. In the code every
  name is followed by a newline, the last one too, so the body of a digest for the single
  repository \<^verbatim>\<open>web\<close> is \<^verbatim>\<open>web\<close> and a newline, not the joined text.
\<close>

theorem Handle_error_digest_counterexample:
  "sent (snd (Handle
       (example_app (example_registry
          [(''web'', (Some empty_output, Some (GoError ''ScanNotFoundException'')))]) example_slack)
       example_internal ''2026 Nov 01''))
     = [(Standalone ''*Scan results on 2026 Nov 01*'', None),
        (Standalone '':x: *Failed get scan results from the following repos:* :x:'', None),
        (Standalone (''web'' @ [CHR 0x0A]), None)]
   \<and> ''web'' @ [CHR 0x0A] \<noteq> newline_joined [''web'']"
  by (simp add: Handle_def ListRepositories_def GetFindings_def describeInput_def
      hasSeverityCounts_def sent_postStandalone headerMsg_def errorMsg_def failedRepos_def
      newline_def example_defs)

text \<open>
  C8, as the code has it. In an invocation that listed, collected and filtered, and whose
  header and blocks were all delivered, the dispatch log is the header and the blocks,
  followed by nothing when the \<^verbatim>\<open>ScanErrors\<close> list is empty, and otherwise by the fixed
  alert text and, when that was delivered, by one more text: the recorded names in the
  order of the list, each followed by a newline.
\<close>

theorem Handle_error_digest:
  assumes "ListRepositories a 1000 = (list, None)"
    and "GetFindings a list = Inr (findings, scanErrors)"
    and "Handle_filter a i findings [] = Inr filtered"
    and "PostStandaloneMessage (slackService a) [] (headerMsg today) = None"
    and "\<forall>k < length filtered. snd (snd (PostMessage (slackService a)
            ((Standalone (headerMsg today), None)
               # map (\<lambda>r. (Blocks (BuildMessageBlock (slackService a) r), None)) (take k filtered))
            (BuildMessageBlock (slackService a) (filtered ! k)))) = None"
  shows "sent (snd (Handle a i today)) =
           (let log = (Standalone (headerMsg today), None)
                        # map (\<lambda>r. (Blocks (BuildMessageBlock (slackService a) r), None)) filtered;
                alert = '':x: *Failed get scan results from the following repos:* :x:'';
                body = concat (map (\<lambda>failed. failed_RepositoryName failed @ [CHR 0x0A]) scanErrors);
                e1 = PostStandaloneMessage (slackService a) log alert;
                e2 = PostStandaloneMessage (slackService a) (log @ [(Standalone alert, None)]) body
            in log @ (if scanErrors = [] then []
                      else (Standalone alert, e1)
                             # (if e1 = None then [(Standalone body, e2)] else [])))"
proof -
  let ?w1 = "\<lparr>sent = [(Standalone (headerMsg today), None)], stdout = []\<rparr> :: 'a world"
  from Handle_dispatch_succeeds [of filtered a ?w1] assms(5)
  obtain w2 where w2: "Handle_dispatch a filtered ?w1 = (None, w2)"
    "sent w2 = sent ?w1 @ map (\<lambda>r. (Blocks (BuildMessageBlock (slackService a) r), None)) filtered"
    by auto
  show ?thesis
    unfolding Handle_dispatch_done [OF assms(1-4) w2(1)]
    using w2(2)
    by (simp add: Let_def failedRepos_concat errorMsg_def newline_def split: option.splits)
qed

theorem Handle_error_digest_witness:
  "sent (snd (Handle (example_app (example_registry example_answers) example_slack) example_internal
          ''2026 Nov 01''))
     = [(Standalone ''*Scan results on 2026 Nov 01*'', None),
        (Blocks [''api'', scanResultsLink ''api'' ''sha256:0a'' ''eu-west-1''], None),
        (Blocks [''web'', scanResultsLink ''web'' ''sha256:0a'' ''eu-west-1''], None),
        (Blocks [''cache'', scanResultsLink ''cache'' ''sha256:0a'' ''eu-west-1''], None),
        (Standalone '':x: *Failed get scan results from the following repos:* :x:'', None),
        (Standalone (''old'' @ [CHR 0x0A]), None)]"
proof -
  let ?a = "example_app (example_registry example_answers) example_slack"
  let ?filtered = "[example_repository ''api'' [(''HIGH'', 3)],
            example_repository ''web'' [(''CRITICAL'', 1), (''HIGH'', 4)],
            example_repository ''cache'' [(''HIGH'', 7)]]"
  have h: "PostStandaloneMessage (slackService ?a) [] (headerMsg ''2026 Nov 01'') = None"
    by (simp add: example_defs)
  have b: "\<forall>k < length ?filtered. snd (snd (PostMessage (slackService ?a)
            ((Standalone (headerMsg ''2026 Nov 01''), None)
               # map (\<lambda>r. (Blocks (BuildMessageBlock (slackService ?a) r), None)) (take k ?filtered))
            (BuildMessageBlock (slackService ?a) (?filtered ! k)))) = None"
    by (simp add: example_app_def example_slack_def)
  from Handle_error_digest [OF example_listing example_findings example_filtered h b]
  show ?thesis
    by (simp add: headerMsg_def example_app_def example_slack_def example_repository_def)
qed

text \<open>
  C9. A listed repository whose lookup succeeds with a finding that has no severity counts
  (no scan findings at all, or an empty count map) leaves no trace: the invocation gives
  the same response, the same dispatch log and the same output as the invocation in which
  the registry does not list that repository. So it adds no block, no \<^verbatim>\<open>ScanErrors\<close> entry
  and no line of the digest, whatever the scoring method and the threshold are.
\<close>

theorem Handle_unscanned_excluded:
  assumes "ListRepositories a 1000 = (Some \<lparr>Repositories = xs @ Some repo # ys\<rparr>, None)"
    and "DescribeImageScanFindings (ecrService a) (describeInput a repo) = (Some finding, None)"
    and "ImageScanFindings finding = None
         \<or> (\<exists>isf. ImageScanFindings finding = Some isf \<and> FindingSeverityCounts isf = [])"
  shows "Handle a i today =
         Handle (a\<lparr>ecrService := (ecrService a)\<lparr>DescribeRepositories :=
                     (\<lambda>input. (Some \<lparr>Repositories = xs @ ys\<rparr>, None))\<rparr>\<rparr>) i today"
proof -
  define a' where "a' = a\<lparr>ecrService := (ecrService a)\<lparr>DescribeRepositories :=
                     (\<lambda>input. (Some \<lparr>Repositories = xs @ ys\<rparr>, None))\<rparr>\<rparr>"
  let ?look = "\<lambda>r. DescribeImageScanFindings (ecrService a) (describeInput a (the r))"
  let ?ok = "\<lambda>r. r \<noteq> None \<and> fst (?look r) \<noteq> None
                \<and> (snd (?look r) \<noteq> None \<longrightarrow> repo_RepositoryName (the r) \<noteq> None)"
  let ?f = "\<lambda>r. the (fst (?look r))"
  let ?n = "\<lambda>r. \<lparr>failed_RepositoryName = the (repo_RepositoryName (the r))\<rparr>"
  let ?e = "\<lambda>r. snd (?look r) \<noteq> None"
  have s: "slackService a' = slackService a" by (simp add: a'_def)
  have di: "describeInput a' = describeInput a"
    by (simp add: fun_eq_iff describeInput_def a'_def Let_def)
  have dl: "DescribeImageScanFindings (ecrService a') = DescribeImageScanFindings (ecrService a)"
    by (simp add: a'_def)
  have L': "ListRepositories a' 1000 = (Some \<lparr>Repositories = xs @ ys\<rparr>, None)"
    by (simp add: ListRepositories_def a'_def)
  have nr: "newRepository a' = newRepository a"
    by (simp add: fun_eq_iff newRepository_def a'_def split: option.splits)
  have ms: "minimumScore a' i = minimumScore a i"
    by (simp add: minimumScore_def a'_def)
  have nc: "\<not> hasSeverityCounts finding"
    using assms(3) by (auto simp: hasSeverityCounts_def)
  have G: "GetFindings a (Some \<lparr>Repositories = xs @ Some repo # ys\<rparr>) =
             (if \<forall>r \<in> set (xs @ ys). ?ok r
              then Inr (map ?f xs @ finding # map ?f ys, map ?n (filter ?e (xs @ ys)))
              else Inl NilPointerDereference)"
    using assms(2) by (auto simp add: GetFindings_def GetFindings_loop_eq simp del: not_None_eq)
  have G': "GetFindings a' (Some \<lparr>Repositories = xs @ ys\<rparr>) =
             (if \<forall>r \<in> set (xs @ ys). ?ok r
              then Inr (map ?f xs @ map ?f ys, map ?n (filter ?e (xs @ ys)))
              else Inl NilPointerDereference)"
    by (auto simp add: GetFindings_def GetFindings_loop_eq di dl simp del: not_None_eq)
  have F: "Handle_filter a i (map ?f xs @ finding # map ?f ys) []
             = Handle_filter a' i (map ?f xs @ map ?f ys) []"
    using nc by (simp add: Handle_filter_eq nr ms)
  show ?thesis
  proof (cases "\<forall>r \<in> set (xs @ ys). ?ok r")
    case True
    from Handle_same_run [OF assms(1) L' _ _ F s, of "map ?n (filter ?e (xs @ ys))" today]
      G G' True
    show ?thesis by (simp add: a'_def)
  next
    case False
    have "GetFindings a (Some \<lparr>Repositories = xs @ Some repo # ys\<rparr>) = Inl NilPointerDereference"
      unfolding G using False by (simp only: if_False)
    moreover have "GetFindings a' (Some \<lparr>Repositories = xs @ ys\<rparr>) = Inl NilPointerDereference"
      unfolding G' using False by (simp only: if_False)
    ultimately have "Handle a i today = Handle a' i today"
      using assms(1) L' by (simp add: Handle_def)
    then show ?thesis by (simp add: a'_def)
  qed
qed

theorem Handle_unscanned_excluded_witness:
  "Handle (example_app (example_registry
             [(''api'', (Some (example_finding ''api'' [(''HIGH'', 3)]), None)),
              (''new'', (Some (example_finding ''new'' []), None)),
              (''web'', (Some (example_finding ''web'' [(''HIGH'', 4)]), None))]) example_slack)
      example_internal ''2026 Nov 01''
   = Handle ((example_app (example_registry
             [(''api'', (Some (example_finding ''api'' [(''HIGH'', 3)]), None)),
              (''new'', (Some (example_finding ''new'' []), None)),
              (''web'', (Some (example_finding ''web'' [(''HIGH'', 4)]), None))]) example_slack)
        \<lparr>ecrService := (example_registry
             [(''api'', (Some (example_finding ''api'' [(''HIGH'', 3)]), None)),
              (''new'', (Some (example_finding ''new'' []), None)),
              (''web'', (Some (example_finding ''web'' [(''HIGH'', 4)]), None))])
           \<lparr>DescribeRepositories :=
              (\<lambda>input. (Some \<lparr>Repositories = [Some \<lparr>repo_RepositoryName = Some ''api''\<rparr>]
                                     @ [Some \<lparr>repo_RepositoryName = Some ''web''\<rparr>]\<rparr>, None))\<rparr>\<rparr>)
      example_internal ''2026 Nov 01''
   \<and> sent (snd (Handle (example_app (example_registry
             [(''api'', (Some (example_finding ''api'' [(''HIGH'', 3)]), None)),
              (''new'', (Some (example_finding ''new'' []), None)),
              (''web'', (Some (example_finding ''web'' [(''HIGH'', 4)]), None))]) example_slack)
      example_internal ''2026 Nov 01''))
     = [(Standalone ''*Scan results on 2026 Nov 01*'', None),
        (Blocks [''api'', scanResultsLink ''api'' ''sha256:0a'' ''eu-west-1''], None),
        (Blocks [''web'', scanResultsLink ''web'' ''sha256:0a'' ''eu-west-1''], None)]"
proof (rule conjI)
  let ?reg = "example_registry
             [(''api'', (Some (example_finding ''api'' [(''HIGH'', 3)]), None)),
              (''new'', (Some (example_finding ''new'' []), None)),
              (''web'', (Some (example_finding ''web'' [(''HIGH'', 4)]), None))]"
  let ?a = "example_app ?reg example_slack"
  have l: "ListRepositories ?a 1000
             = (Some \<lparr>Repositories = [Some \<lparr>repo_RepositoryName = Some ''api''\<rparr>]
                   @ Some \<lparr>repo_RepositoryName = Some ''new''\<rparr>
                       # [Some \<lparr>repo_RepositoryName = Some ''web''\<rparr>]\<rparr>, None)"
    by (simp add: ListRepositories_def example_defs)
  have f: "DescribeImageScanFindings (ecrService ?a) (describeInput ?a \<lparr>repo_RepositoryName = Some ''new''\<rparr>)
             = (Some (example_finding ''new'' []), None)"
    by (simp add: describeInput_def example_app_def example_registry_def)
  have c: "ImageScanFindings (example_finding ''new'' []) = None
         \<or> (\<exists>isf. ImageScanFindings (example_finding ''new'' []) = Some isf \<and> FindingSeverityCounts isf = [])"
    by (simp add: example_finding_def)
  from Handle_unscanned_excluded [OF l f c, of example_internal "''2026 Nov 01''"]
  show "Handle ?a example_internal ''2026 Nov 01''
   = Handle (?a\<lparr>ecrService := ?reg\<lparr>DescribeRepositories :=
              (\<lambda>input. (Some \<lparr>Repositories = [Some \<lparr>repo_RepositoryName = Some ''api''\<rparr>]
                                     @ [Some \<lparr>repo_RepositoryName = Some ''web''\<rparr>]\<rparr>, None))\<rparr>\<rparr>)
      example_internal ''2026 Nov 01''"
    by (simp add: example_app_def)
  show "sent (snd (Handle ?a example_internal ''2026 Nov 01''))
     = [(Standalone ''*Scan results on 2026 Nov 01*'', None),
        (Blocks [''api'', scanResultsLink ''api'' ''sha256:0a'' ''eu-west-1''], None),
        (Blocks [''web'', scanResultsLink ''web'' ''sha256:0a'' ''eu-west-1''], None)]"
    by (simp add: Handle_def ListRepositories_def GetFindings_def describeInput_def
      hasSeverityCounts_def newRepository_def minimumScore_def sent_postStandalone headerMsg_def
      Let_def example_defs)
qed

subsection \<open>The severity score\<close>




end
